theory Spec2Isabelle
  imports Complex_Main "HOL-Library.Multiset" "HOL-Library.Option_ord"
begin

section \<open>Python values shared by both modules\<close>

text \<open>
  The exceptions the two modules can meet. \<open>MergeError\<close> is pandas' merge error, a subclass
  of \<open>ValueError\<close>; \<open>ConnectionError\<close> stands for the errors of the network layer under
  the data provider. Floats are idealised as reals: the claims below are about control
  flow, indices and error cases, never about rounding.
\<close>

datatype py_error =
    IndexError | KeyError | ValueError | TypeError | ZeroDivisionError
  | UnboundLocalError | AttributeError | MergeError | ConnectionError

text \<open>
  Subscripting a list, \<open>xs[i]\<close>. Positions \<open>0 .. len - 1\<close> are read directly, positions
  \<open>-len .. -1\<close> from the end, and any other position is an \<open>IndexError\<close>.
\<close>

definition getitem :: "'a list \<Rightarrow> int \<Rightarrow> py_error + 'a" where
  "getitem xs i =
     (if 0 \<le> i \<and> i < int (length xs) then Inr (xs ! nat i)
      else if i < 0 \<and> - int (length xs) \<le> i then Inr (xs ! nat (int (length xs) + i))
      else Inl IndexError)"

text \<open>Python slicing \<open>xs[:k]\<close>: a negative bound counts from the end; never raises.\<close>

definition slice_to :: "'a list \<Rightarrow> int \<Rightarrow> 'a list" where
  "slice_to xs k = (if k < 0 then take (nat (int (length xs) + k)) xs else take (nat k) xs)"

section \<open>indicator.py: \<open>Indicator._exponential_moving_avarage\<close>\<close>

text \<open>One pass of the loop body: \<open>ema = (data[idx + 50] * mf) + (ema_pre * (1 - mf))\<close>.\<close>

definition ema_step :: "real \<Rightarrow> real \<Rightarrow> real \<Rightarrow> real" where
  "ema_step mf ema_pre x = x * mf + ema_pre * (1 - mf)"

text \<open>
  The loop \<open>for idx in range(1, len(data)-50)\<close>, entered with \<open>idx = 1\<close>. The state is
  \<open>ema_pre\<close> and \<open>ema\<close>; \<open>ema\<close> is \<open>None\<close> while the name is still unbound. The result is
  the binding of \<open>ema\<close> when the loop is left, by exhaustion of the range or by \<open>break\<close>.
\<close>

function ema_loop :: "real list \<Rightarrow> real \<Rightarrow> int \<Rightarrow> real \<Rightarrow> real option \<Rightarrow> py_error + real option" where
  "ema_loop data mf idx ema_pre ema =
     (if idx < int (length data) - 50 then
        (case getitem data (idx + 50) of
           Inl e \<Rightarrow> Inl e
         | Inr x \<Rightarrow>
             (let ema' = ema_step mf ema_pre x in
              if idx = int (length data) - 50 then Inr (Some ema')
              else ema_loop data mf (idx + 1) ema' (Some ema')))
      else Inr ema)"
  by pat_completeness auto
termination
  by (relation "measure (\<lambda>(data, mf, idx, ema_pre, ema). nat (int (length data) - 50 - idx))") auto

declare ema_loop.simps [simp del]

text \<open>
  The whole function, for a list argument. In order: \<open>mf = smoothing_factor/(1 + period)\<close>,
  \<open>sma0 = sum(data[:period]) / period\<close>, \<open>ema0 = data[period]*mf + sma0*(1 - mf)\<close>,
  the loop, and \<open>return ema\<close>, which raises when \<open>ema\<close> was never bound.
\<close>

definition exponential_moving_avarage :: "real list \<Rightarrow> int \<Rightarrow> int \<Rightarrow> py_error + real" where
  "exponential_moving_avarage data period smoothing_factor =
     (if 1 + period = 0 then Inl ZeroDivisionError
      else
        (let mf = real_of_int smoothing_factor / real_of_int (1 + period) in
         if period = 0 then Inl ZeroDivisionError
         else
           (let sma0 = sum_list (slice_to data period) / real_of_int period in
            case getitem data period of
              Inl e \<Rightarrow> Inl e
            | Inr x \<Rightarrow>
                (let ema0 = x * mf + sma0 * (1 - mf) in
                 case ema_loop data mf 1 ema0 None of
                   Inl e \<Rightarrow> Inl e
                 | Inr None \<Rightarrow> Inl UnboundLocalError
                 | Inr (Some ema) \<Rightarrow> Inr ema))))"

text \<open>
  The recurrence as the specification words it, for comparison: from \<open>idx = 1\<close>, while
  \<open>idx + 50 < len(series)\<close>, fold in \<open>series[idx + 50]\<close> and advance \<open>idx\<close> by 50; the final
  \<open>ema_prev\<close> is returned.
\<close>

function spec_stride_loop :: "real list \<Rightarrow> real \<Rightarrow> nat \<Rightarrow> real \<Rightarrow> real" where
  "spec_stride_loop series k idx ema_prev =
     (if idx + 50 < length series
      then spec_stride_loop series k (idx + 50) (series ! (idx + 50) * k + ema_prev * (1 - k))
      else ema_prev)"
  by pat_completeness auto
termination
  by (relation "measure (\<lambda>(series, k, idx, ema_prev). length series - idx)") auto

declare spec_stride_loop.simps [simp del]

definition spec_stride_ema :: "real list \<Rightarrow> nat \<Rightarrow> real \<Rightarrow> real" where
  "spec_stride_ema series period smoothing =
     (let k = smoothing / (1 + real period);
          sma0 = sum_list (take period series) / real period;
          ema0 = series ! period * k + sma0 * (1 - k)
      in spec_stride_loop series k 1 ema0)"

section \<open>unit_strategy.py: the data\<close>

text \<open>Sequencing of fallible steps: the first exception raised is the one that leaves.\<close>

definition and_then :: "'e + 'a \<Rightarrow> ('a \<Rightarrow> 'e + 'b) \<Rightarrow> 'e + 'b" where
  "and_then m f = (case m of Inl e \<Rightarrow> Inl e | Inr x \<Rightarrow> f x)"

text \<open>
  Calendar dates (year, month, day); the time of day plays no part. \<open>strftime_dmy\<close> is
  \<open>.strftime('%d-%m-%Y')\<close> for years of four digits, \<open>toordinal\<close> the proleptic Gregorian
  day number, so that \<open>days_between a b\<close> is \<open>(a - b).days\<close>, and \<open>minus_one_year\<close> is
  \<open>d - relativedelta(years=1)\<close>, which clips 29 February to the 28th.
\<close>

datatype pydate = Datetime (year: int) (month: int) (day: int)

definition digit :: "int \<Rightarrow> char" where
  "digit n = ''0123456789'' ! nat (n mod 10)"

definition strftime_dmy :: "pydate \<Rightarrow> string" where
  "strftime_dmy d =
     [digit (day d div 10), digit (day d), CHR ''-'',
      digit (month d div 10), digit (month d), CHR ''-'',
      digit (year d div 1000), digit (year d div 100), digit (year d div 10), digit (year d)]"

definition is_leap :: "int \<Rightarrow> bool" where
  "is_leap y = (if y mod 400 = 0 then True else if y mod 100 = 0 then False else y mod 4 = 0)"

definition days_before_year :: "int \<Rightarrow> int" where
  "days_before_year y = (let p = y - 1 in p * 365 + p div 4 - p div 100 + p div 400)"

definition days_before_month :: "int \<Rightarrow> int \<Rightarrow> int" where
  "days_before_month y m =
     [0, 31, 59, 90, 120, 151, 181, 212, 243, 273, 304, 334] ! nat (m - 1)
       + (if 2 < m \<and> is_leap y then 1 else 0)"

definition toordinal :: "pydate \<Rightarrow> int" where
  "toordinal d = days_before_year (year d) + days_before_month (year d) (month d) + day d"

definition days_between :: "pydate \<Rightarrow> pydate \<Rightarrow> int" where
  "days_between a b = toordinal a - toordinal b"

definition minus_one_year :: "pydate \<Rightarrow> py_error + pydate" where
  "minus_one_year d =
     (if year d \<le> 1 then Inl ValueError
      else Inr (Datetime (year d - 1) (month d) (if month d = 2 \<and> day d = 29 then 28 else day d)))"

text \<open>
  A price frame after \<open>reset_index\<close>: column 0 is \<open>Date\<close>; of the price columns only
  \<open>Close\<close> is read. A close of \<open>None\<close> is a missing value (NaN or \<open>pd.NA\<close>).
\<close>

record price_row =
  Date :: pydate
  Close :: "real option"

type_synonym frame = "price_row list"

definition iloc :: "frame \<Rightarrow> int \<Rightarrow> py_error + price_row" where
  "iloc company_df i = getitem company_df i"

text \<open>The dictionary \<open>_parallel_momentum\<close> returns, one row of the momentum table.\<close>

record momentum_record =
  company :: string
  yearly_start_date :: string
  yearly_start_date_close :: "real option"
  yearly_end_date :: string
  yearly_end_date_close :: "real option"
  return_yearly :: "real option"
  monthly_start_date :: "string option"
  monthly_start_date_close :: "real option"
  monthly_end_date :: string
  monthly_end_date_close :: "real option"
  return_monthly :: "real option"

text \<open>
  What the module imports and does not define, and the machine it runs on, as parameters:
  the number of logical cores, the clock, \<open>datetime.strptime(_, '%d/%m/%Y')\<close>,
  \<open>DataRetrive.single_company_specific(company_name, start_date, end_date)\<close>,
  \<open>annualized_rate_of_return(end_date, start_date, duration)\<close>,
  \<open>get_appropriate_date_momentum(company_df, company, verbosity)\<close>, and what the bodies of
  \<open>Indicator.__init__\<close> and \<open>Indicator.ema_indicator\<close> do with files and the provider once
  their arguments are bound (\<open>ema_indicator\<close> has no \<open>return\<close>: it yields \<open>None\<close>). No call
  of unit_strategy.py gets past the binding, so every statement below holds for all bodies.
\<close>

record env =
  cpu_count :: int
  now :: pydate
  strptime :: "string \<Rightarrow> py_error + pydate"
  single_company_specific :: "string \<Rightarrow> pydate \<Rightarrow> pydate \<Rightarrow> py_error + frame"
  annualized_rate_of_return :: "real option \<Rightarrow> real option \<Rightarrow> real \<Rightarrow> py_error + real option"
  get_appropriate_date_momentum :: "frame \<Rightarrow> string \<Rightarrow> int \<Rightarrow> py_error + (pydate \<times> real option)"
  indicator_init_body :: "py_error + unit"
  ema_indicator_body :: "py_error + unit"

section \<open>unit_strategy.py: \<open>UnitStrategy._parallel_momentum\<close>\<close>

text \<open>
  The \<open>try\<close> block, statement by statement and argument by argument in evaluation order.
  It yields \<open>company_df\<close>, \<open>ar_yearly\<close>, \<open>ar_monthly\<close> and \<open>monthly_start_date\<close>.
\<close>

definition try_block ::
  "env \<Rightarrow> string \<Rightarrow> pydate \<Rightarrow> pydate \<Rightarrow> int \<Rightarrow> py_error + (frame \<times> real option \<times> real option \<times> string)" where
  "try_block E company_name start end_d verbosity =
     and_then (single_company_specific E (company_name @ ''.NS'') start end_d) (\<lambda>company_df.
     and_then (iloc company_df (- 1)) (\<lambda>last_row.
     and_then (iloc company_df 0) (\<lambda>first_row.
     and_then (annualized_rate_of_return E (Close last_row) (Close first_row) 1) (\<lambda>ar_yearly.
     and_then (get_appropriate_date_momentum E company_df company_name verbosity) (\<lambda>anchor.
     and_then (iloc company_df (- 30)) (\<lambda>row_30.
     and_then (annualized_rate_of_return E (Close last_row) (snd anchor)
                 (real_of_int (days_between (Date last_row) (Date row_30)) / 30)) (\<lambda>ar_monthly.
     and_then (get_appropriate_date_momentum E company_df company_name 0) (\<lambda>anchor0.
       Inr (company_df, ar_yearly, ar_monthly, strftime_dmy (fst anchor0))))))))))"

text \<open>\<open>except (IndexError, KeyError, ValueError)\<close>: these classes and their subclasses.\<close>

definition caught :: "py_error \<Rightarrow> bool" where
  "caught e = (e = IndexError \<or> e = KeyError \<or> e = ValueError \<or> e = MergeError)"

text \<open>The frame the handler builds: 30 rows of \<open>datetime(1000, 1, 1)\<close> and \<open>pd.NA\<close>.\<close>

definition placeholder_frame :: frame where
  "placeholder_frame = replicate 30 \<lparr>Date = Datetime 1000 1 1, Close = None\<rparr>"

text \<open>The \<open>return\<close> statement, which stands after the \<open>try\<close> and is not guarded by it.\<close>

definition make_record ::
  "string \<Rightarrow> frame \<Rightarrow> real option \<Rightarrow> real option \<Rightarrow> string option \<Rightarrow> py_error + momentum_record" where
  "make_record company_name company_df ar_yearly ar_monthly monthly_start =
     and_then (iloc company_df 0) (\<lambda>first_row.
     and_then (iloc company_df (- 1)) (\<lambda>last_row.
     and_then (iloc company_df (- 30)) (\<lambda>row_30.
       Inr \<lparr>company = company_name,
            yearly_start_date = strftime_dmy (Date first_row),
            yearly_start_date_close = Close first_row,
            yearly_end_date = strftime_dmy (Date last_row),
            yearly_end_date_close = Close last_row,
            return_yearly = ar_yearly,
            monthly_start_date = monthly_start,
            monthly_start_date_close = Close row_30,
            monthly_end_date = strftime_dmy (Date last_row),
            monthly_end_date_close = Close last_row,
            return_monthly = ar_monthly\<rparr>)))"

definition parallel_momentum ::
  "env \<Rightarrow> string \<Rightarrow> pydate \<Rightarrow> pydate \<Rightarrow> int \<Rightarrow> py_error + momentum_record" where
  "parallel_momentum E company_name start end_d verbosity =
     (case try_block E company_name start end_d verbosity of
        Inr (company_df, ar_yearly, ar_monthly, monthly_start) \<Rightarrow>
          make_record company_name company_df ar_yearly ar_monthly (Some monthly_start)
      | Inl e \<Rightarrow>
          if caught e then make_record company_name placeholder_frame None None None
          else Inl e)"

text \<open>
  The record that the \<open>return\<close> statement builds from the placeholder frame and the three
  missing values of the handler (lemma \<open>make_record_placeholder\<close> below).
\<close>

definition unusable_record :: "string \<Rightarrow> momentum_record" where
  "unusable_record company_name =
     \<lparr>company = company_name,
      yearly_start_date = ''01-01-1000'',
      yearly_start_date_close = None,
      yearly_end_date = ''01-01-1000'',
      yearly_end_date_close = None,
      return_yearly = None,
      monthly_start_date = None,
      monthly_start_date_close = None,
      monthly_end_date = ''01-01-1000'',
      monthly_end_date_close = None,
      return_monthly = None\<rparr>"

section \<open>unit_strategy.py: \<open>UnitStrategy.momentum_strategy\<close>\<close>

text \<open>
  \<open>multiprocessing.Pool(processes)\<close> refuses a size below one. \<open>pool.starmap\<close> hands back
  the results in the order of its input; an exception of a task is raised again in the
  caller (here: the first one in input order).
\<close>

definition Pool :: "int \<Rightarrow> py_error + int" where
  "Pool processes = (if processes < 1 then Inl ValueError else Inr processes)"

fun starmap :: "('a \<Rightarrow> py_error + 'b) \<Rightarrow> 'a list \<Rightarrow> py_error + 'b list" where
  "starmap f [] = Inr []"
| "starmap f (x # xs) =
     (case f x of
        Inl e \<Rightarrow> Inl e
      | Inr y \<Rightarrow> (case starmap f xs of Inl e \<Rightarrow> Inl e | Inr ys \<Rightarrow> Inr (y # ys)))"

text \<open>Lines 84 to 94: the dates, the pool, and one task per company.\<close>

definition collect_results ::
  "env \<Rightarrow> string list \<Rightarrow> string \<Rightarrow> int \<Rightarrow> py_error + momentum_record list" where
  "collect_results E companies end_date verbosity =
     and_then (if end_date = ''today'' then Inr (now E) else strptime E end_date) (\<lambda>end_d.
     and_then (minus_one_year end_d) (\<lambda>start.
     and_then (Pool (cpu_count E - 1)) (\<lambda>pool.
       starmap (\<lambda>company_name. parallel_momentum E company_name start end_d verbosity) companies)))"

text \<open>
  \<open>dropna\<close> removes every row with a missing value in any column. \<open>sort_values\<close> by
  \<open>return_yearly\<close> with \<open>ascending=False\<close> has that column as its only key: pandas
  reverses the column, takes its ascending argsort and reverses the outcome. The argsort
  is modelled as a stable one, which is what the default sort kind of the numpy version
  the module was written for does on tables of up to 16 rows; the general statements
  below rely on the order by key and on the rows being kept, never on stability.
  \<open>head(n)\<close> keeps the first \<open>n\<close> rows, or all but the last \<open>-n\<close> for a negative \<open>n\<close>.
\<close>

definition has_na :: "momentum_record \<Rightarrow> bool" where
  "has_na r =
     (yearly_start_date_close r = None \<or> yearly_end_date_close r = None \<or> return_yearly r = None
      \<or> monthly_start_date r = None \<or> monthly_start_date_close r = None
      \<or> monthly_end_date_close r = None \<or> return_monthly r = None)"

definition dropna :: "momentum_record list \<Rightarrow> momentum_record list" where
  "dropna rows = filter (\<lambda>r. \<not> has_na r) rows"

definition sort_values :: "momentum_record list \<Rightarrow> momentum_record list" where
  "sort_values rows = rev (sort_key return_yearly (rev rows))"

definition head :: "'a list \<Rightarrow> int \<Rightarrow> 'a list" where
  "head rows n = (if n < 0 then take (nat (int (length rows) + n)) rows else take (nat n) rows)"

text \<open>
  Lines 95 to 101. A frame built from an empty list has no columns, and sorting it by
  \<open>return_yearly\<close> raises \<open>KeyError\<close>.
\<close>

definition momentum_frame :: "momentum_record list \<Rightarrow> py_error + momentum_record list" where
  "momentum_frame result =
     (if result = [] then Inl KeyError else Inr (sort_values (dropna result)))"

text \<open>
  What a strategy hands over: with \<open>save\<close> the table goes to a CSV file and the call
  returns \<open>None\<close>; without, the table is returned. File names and logging are left out.
\<close>

datatype 'a outcome = Saved 'a | Returned 'a

fun table :: "'a outcome \<Rightarrow> 'a" where
  "table (Saved t) = t"
| "table (Returned t) = t"

definition momentum_strategy ::
  "env \<Rightarrow> string list \<Rightarrow> string \<Rightarrow> int \<Rightarrow> bool \<Rightarrow> int \<Rightarrow> py_error + momentum_record list outcome" where
  "momentum_strategy E companies end_date top_company_count save verbosity =
     and_then (collect_results E companies end_date verbosity) (\<lambda>result.
     and_then (momentum_frame result) (\<lambda>momentum_df.
       if save then Inr (Saved (head momentum_df top_company_count))
       else Inr (Returned (head momentum_df top_company_count))))"

text \<open>
  The call with every argument left at its default: \<open>end_date='today'\<close>,
  \<open>top_company_count=20\<close>, \<open>save=True\<close>, \<open>verbosity=1\<close>.
\<close>

definition momentum_strategy_default :: "env \<Rightarrow> string list \<Rightarrow> py_error + momentum_record list outcome" where
  "momentum_strategy_default E companies = momentum_strategy E companies ''today'' 20 True 1"

section \<open>unit_strategy.py: \<open>UnitStrategy.momentum_with_ema_strategy\<close>\<close>

text \<open>
  Binding the keyword arguments of a call to a signature without \<open>**kwargs\<close>. A signature
  lists its parameters after \<open>self\<close>, each with whether it has a default. A keyword that
  names no parameter, or a parameter without default that no keyword supplies, is a
  \<open>TypeError\<close> raised before the body starts.
\<close>

definition bind_keywords :: "(string \<times> bool) list \<Rightarrow> string list \<Rightarrow> py_error + unit" where
  "bind_keywords params keywords =
     (if list_ex (\<lambda>k. k \<notin> set (map fst params)) keywords then Inl TypeError
      else if list_ex (\<lambda>p. \<not> snd p \<and> fst p \<notin> set keywords) params then Inl TypeError
      else Inr ())"

text \<open>\<open>def __init__(self, path: str)\<close> of indicator.py.\<close>

definition Indicator_init_params :: "(string \<times> bool) list" where
  "Indicator_init_params = [(''path'', False)]"

text \<open>\<open>def ema_indicator(self, export_path: str='.', verbosity: int=1)\<close> of indicator.py.\<close>

definition ema_indicator_params :: "(string \<times> bool) list" where
  "ema_indicator_params = [(''export_path'', True), (''verbosity'', True)]"

definition Indicator_call :: "env \<Rightarrow> string list \<Rightarrow> py_error + unit" where
  "Indicator_call E keywords =
     and_then (bind_keywords Indicator_init_params keywords) (\<lambda>_. indicator_init_body E)"

record ema_record =
  ema_company :: string
  ema50 :: real
  ema200 :: real
  action :: string

text \<open>The value of a call of \<open>ema_indicator\<close> is \<open>None\<close>: the table goes to a CSV file.\<close>

definition ema_indicator_call :: "env \<Rightarrow> string list \<Rightarrow> py_error + ema_record list option" where
  "ema_indicator_call E keywords =
     and_then (bind_keywords ema_indicator_params keywords) (\<lambda>_.
     and_then (ema_indicator_body E) (\<lambda>_. Inr None))"

text \<open>
  \<open>momentum_df.merge(ema_df, on='company', validate='1:1')\<close>: an inner join in the order
  of the left table; a right operand that is no frame is a \<open>TypeError\<close>, a repeated key
  on either side a \<open>MergeError\<close>.
\<close>

definition merge_on_company ::
  "momentum_record list \<Rightarrow> ema_record list option \<Rightarrow> py_error + (momentum_record \<times> ema_record) list" where
  "merge_on_company momentum_df ema_df =
     (case ema_df of
        None \<Rightarrow> Inl TypeError
      | Some ema_rows \<Rightarrow>
          if distinct (map company momentum_df) \<and> distinct (map ema_company ema_rows)
          then Inr (concat (map (\<lambda>l. map (Pair l) (filter (\<lambda>r. ema_company r = company l) ema_rows))
                            momentum_df))
          else Inl MergeError)"

definition momentum_with_ema_strategy ::
  "env \<Rightarrow> string list \<Rightarrow> string \<Rightarrow> int \<Rightarrow> bool \<Rightarrow> int
     \<Rightarrow> py_error + (momentum_record \<times> ema_record) list outcome" where
  "momentum_with_ema_strategy E companies end_date top_company_count save verbosity =
     and_then (momentum_strategy E companies end_date top_company_count False verbosity) (\<lambda>returned.
     and_then (case returned of Returned df \<Rightarrow> Inr df | Saved _ \<Rightarrow> Inl AttributeError) (\<lambda>momentum_df.
     and_then (Indicator_call E [''company_name'']) (\<lambda>ind.
     and_then (if end_date = ''today'' then Inr (now E) else strptime E end_date) (\<lambda>cutoff_date.
     and_then (ema_indicator_call E [''ema_canditate'', ''cutoff_date'', ''save'', ''verbosity'']) (\<lambda>ema_df.
     and_then (merge_on_company momentum_df ema_df) (\<lambda>momentum_ema_df.
       if save then Inr (Saved momentum_ema_df) else Inr (Returned momentum_ema_df)))))))"

section \<open>A provider stub for concrete runs\<close>

text \<open>
  Modelled from the spec: \<open>annualized_rate_of_return\<close> of
  \<open>stock_analysis.utils.formula_helpers\<close>, which is not among the sources. The spec gives
  \<open>(endPrice/startPrice)^(1/durationYears) - 1\<close>, failing with a division by zero when the
  start price is 0 and passing a missing price through as a missing return.
\<close>

definition spec_annualized_return :: "real option \<Rightarrow> real option \<Rightarrow> real \<Rightarrow> py_error + real option" where
  "spec_annualized_return end_price start_price duration =
     (case end_price of
        None \<Rightarrow> Inr None
      | Some e \<Rightarrow>
          (case start_price of
             None \<Rightarrow> Inr None
           | Some s \<Rightarrow>
               if s = 0 then Inl ZeroDivisionError
               else Inr (Some ((e / s) powr (1 / duration) - 1))))"

text \<open>
  Modelled from the spec: \<open>get_appropriate_date_momentum\<close> of
  \<open>stock_analysis.utils.helpers\<close>, which is not among the sources. The spec leaves the
  anchor policy open; the stub takes the date and close of the 30th row from the end.
\<close>

definition spec_monthly_anchor :: "frame \<Rightarrow> string \<Rightarrow> int \<Rightarrow> py_error + (pydate \<times> real option)" where
  "spec_monthly_anchor company_df company_name verbosity =
     and_then (iloc company_df (- 30)) (\<lambda>r. Inr (Date r, Close r))"

text \<open>
  Thirty trading days of January 2020 (the 30th is missing), closing at \<open>a\<close> on every day
  but the last, which closes at \<open>b\<close>.
\<close>

definition january_frame :: "real \<Rightarrow> real \<Rightarrow> frame" where
  "january_frame a b =
     map (\<lambda>i. \<lparr>Date = Datetime 2020 1 (1 + int i), Close = Some a\<rparr>) [0..<29]
       @ [\<lparr>Date = Datetime 2020 1 31, Close = Some b\<rparr>]"

text \<open>
  The provider stub: \<open>BAD\<close> cannot be reached, \<open>SHORT\<close> has a single row, \<open>HIGH\<close> rises
  from 100 to 150, and every other ticker rises from 100 to 121.
\<close>

definition stub_provider :: "string \<Rightarrow> pydate \<Rightarrow> pydate \<Rightarrow> py_error + frame" where
  "stub_provider ticker start end_d =
     (if ticker = ''BAD.NS'' then Inl ConnectionError
      else if ticker = ''SHORT.NS'' then Inr [\<lparr>Date = Datetime 2020 1 31, Close = Some 100\<rparr>]
      else if ticker = ''HIGH.NS'' then Inr (january_frame 100 150)
      else Inr (january_frame 100 121))"

definition stub_env :: env where
  "stub_env =
     \<lparr>cpu_count = 4,
      now = Datetime 2020 1 31,
      strptime = (\<lambda>s. if s = ''31/01/2020'' then Inr (Datetime 2020 1 31) else Inl ValueError),
      single_company_specific = stub_provider,
      annualized_rate_of_return = spec_annualized_return,
      get_appropriate_date_momentum = spec_monthly_anchor,
      indicator_init_body = Inr (),
      ema_indicator_body = Inr ()\<rparr>"

text \<open>The record of a ticker that rises from 100 to \<open>b\<close> in the stub, with return \<open>r\<close>.\<close>

definition january_record :: "string \<Rightarrow> real \<Rightarrow> real \<Rightarrow> momentum_record" where
  "january_record company_name b r =
     \<lparr>company = company_name,
      yearly_start_date = ''01-01-2020'',
      yearly_start_date_close = Some 100,
      yearly_end_date = ''31-01-2020'',
      yearly_end_date_close = Some b,
      return_yearly = Some r,
      monthly_start_date = Some ''01-01-2020'',
      monthly_start_date_close = Some 100,
      monthly_end_date = ''31-01-2020'',
      monthly_end_date_close = Some b,
      return_monthly = Some r\<rparr>"

section \<open>Properties of the moving average\<close>

lemma getitem_in_range:
  "0 \<le> i \<Longrightarrow> i < int (length xs) \<Longrightarrow> getitem xs i = Inr (xs ! nat i)"
  by (simp add: getitem_def)

lemma getitem_beyond:
  "int (length xs) \<le> i \<Longrightarrow> getitem xs i = Inl IndexError"
  by (simp add: getitem_def)

lemma ema_loop_unfold:
  "0 \<le> idx \<Longrightarrow>
   ema_loop data mf idx ema_pre ema =
     (if idx < int (length data) - 50
      then ema_loop data mf (idx + 1) (ema_step mf ema_pre (data ! nat (idx + 50)))
             (Some (ema_step mf ema_pre (data ! nat (idx + 50))))
      else Inr ema)"
  by (subst ema_loop.simps) (simp add: getitem_in_range Let_def)

lemma ema_loop_foldl:
  "0 \<le> idx \<Longrightarrow>
   ema_loop data mf idx ema_pre ema =
     Inr (if idx < int (length data) - 50
          then Some (foldl (ema_step mf) ema_pre (drop (nat (idx + 50)) data))
          else ema)"
proof (induction data mf idx ema_pre ema rule: ema_loop.induct)
  case (1 data mf idx ema_pre ema)
  show ?case
  proof (cases "idx < int (length data) - 50")
    case False
    then show ?thesis using "1.prems" by (simp add: ema_loop_unfold)
  next
    case True
    let ?x = "data ! nat (idx + 50)"
    have g: "getitem data (idx + 50) = Inr ?x"
      using True "1.prems" by (simp add: getitem_in_range)
    have ne: "idx \<noteq> int (length data) - 50" using True by simp
    have ih: "ema_loop data mf (idx + 1) (ema_step mf ema_pre ?x) (Some (ema_step mf ema_pre ?x)) =
        Inr (if idx + 1 < int (length data) - 50
             then Some (foldl (ema_step mf) (ema_step mf ema_pre ?x) (drop (nat (idx + 1 + 50)) data))
             else Some (ema_step mf ema_pre ?x))"
      using "1.IH"[OF True g refl ne] "1.prems" by simp
    have lt: "nat (idx + 50) < length data" using True "1.prems" by linarith
    have dr: "drop (nat (idx + 50)) data = ?x # drop (nat (idx + 1 + 50)) data"
    proof -
      have "nat (idx + 1 + 50) = Suc (nat (idx + 50))" using "1.prems" by linarith
      then show ?thesis using Cons_nth_drop_Suc[OF lt] by simp
    qed
    have last: "\<not> idx + 1 < int (length data) - 50 \<Longrightarrow> drop (nat (idx + 1 + 50)) data = []"
      using True by simp
    have "ema_loop data mf idx ema_pre ema =
        ema_loop data mf (idx + 1) (ema_step mf ema_pre ?x) (Some (ema_step mf ema_pre ?x))"
      using True "1.prems" by (subst ema_loop_unfold) simp_all
    also have "\<dots> = Inr (Some (foldl (ema_step mf) ema_pre (drop (nat (idx + 50)) data)))"
    proof (cases "idx + 1 < int (length data) - 50")
      case True
      then show ?thesis by (simp only: ih dr if_True foldl_Cons)
    next
      case False
      have "drop (nat (idx + 1 + 50)) data = []" using last[OF False] .
      then show ?thesis using False by (simp only: ih dr if_False foldl_Cons foldl_Nil)
    qed
    finally show ?thesis using True by simp
  qed
qed

lemma ema_outcome:
  assumes "1 \<le> period"
  shows "exponential_moving_avarage data period smoothing_factor =
     (if int (length data) \<le> period then Inl IndexError
      else if length data \<le> 51 then Inl UnboundLocalError
      else
        (let mf = real_of_int smoothing_factor / real_of_int (1 + period);
             sma0 = sum_list (take (nat period) data) / real_of_int period;
             ema0 = data ! nat period * mf + sma0 * (1 - mf)
         in Inr (foldl (ema_step mf) ema0 (drop 51 data))))"
proof -
  have p: "1 + period \<noteq> 0" "period \<noteq> 0" "\<not> period < 0" using assms by auto
  show ?thesis
  proof (cases "int (length data) \<le> period")
    case True
    then show ?thesis
      using p by (simp add: exponential_moving_avarage_def getitem_beyond Let_def)
  next
    case False
    then have g: "getitem data period = Inr (data ! nat period)"
      using assms by (simp add: getitem_in_range)
    show ?thesis
      using False p g
      by (simp add: exponential_moving_avarage_def Let_def slice_to_def ema_loop_foldl)
  qed
qed

text \<open>
  C1 (as amended). The loop does not stride by 50: \<open>idx\<close> runs over \<open>1, 2, ..., len(data) - 51\<close>
  one position at a time and reads \<open>data[idx + 50]\<close>, so for a period of at least 1 and a
  series longer than both the period and 51, the value returned is the seed \<open>ema0\<close> with
  every observation from position 51 to the end folded in, each once and in order.
\<close>

theorem ema_folds_every_observation_from_51:
  assumes "1 \<le> period" and "period < int (length data)" and "51 < length data"
  shows "exponential_moving_avarage data period smoothing_factor =
     (let mf = real_of_int smoothing_factor / real_of_int (1 + period);
          sma0 = sum_list (take (nat period) data) / real_of_int period;
          ema0 = data ! nat period * mf + sma0 * (1 - mf)
      in Inr (foldl (ema_step mf) ema0 (drop 51 data)))"
  using assms by (simp add: ema_outcome)

theorem ema_folds_every_observation_from_51_witness:
  "(1::int) \<le> 3 \<and> 3 < int (length (replicate 51 (1::real) @ [3, 5]))
   \<and> 51 < length (replicate 51 (1::real) @ [3, 5])
   \<and> exponential_moving_avarage (replicate 51 1 @ [3, 5]) 3 2 = Inr (7/2)"
  using ema_folds_every_observation_from_51 [of 3 "replicate 51 1 @ [3, 5]" 2]
  by (simp add: Let_def ema_step_def nth_append sum_list_replicate)

text \<open>
  C1 (as stated) fails. On 52 zeros followed by a one, with period 3 and smoothing 2, a
  stride of 50 would read position 51 only and give 0; the code also reads position 52
  and gives 1/2.
\<close>

theorem ema_stride_50_counterexample:
  "exponential_moving_avarage (replicate 52 0 @ [1]) 3 2 = Inr (1/2)
   \<and> spec_stride_ema (replicate 52 0 @ [1]) 3 2 = 0
   \<and> exponential_moving_avarage (replicate 52 0 @ [1]) 3 2
       \<noteq> Inr (spec_stride_ema (replicate 52 0 @ [1]) 3 2)"
proof -
  have code: "exponential_moving_avarage (replicate 52 0 @ [1]) 3 2 = Inr (1/2)"
    by (simp add: ema_outcome Let_def ema_step_def nth_append sum_list_replicate)
  have spec: "spec_stride_ema (replicate 52 0 @ [1]) 3 2 = 0"
    apply (simp add: spec_stride_ema_def Let_def nth_append sum_list_replicate)
    apply (subst spec_stride_loop.simps, simp add: nth_append)
    apply (subst spec_stride_loop.simps, simp add: nth_append)
    done
  show ?thesis unfolding code spec by simp
qed

text \<open>
  C2. A series of 51 observations is longer than the period 50, yet the call raises: the
  range of the loop is empty, \<open>ema\<close> is never bound, and \<open>return ema\<close> fails with
  \<open>UnboundLocalError\<close> where the seed \<open>ema0\<close> was due.
\<close>

theorem ema_unbound_on_51_observations:
  "exponential_moving_avarage (replicate 51 1) 50 2 = Inl UnboundLocalError"
  by (simp add: ema_outcome)

section \<open>Properties of the momentum pipeline\<close>

lemma and_then_Inl [simp]: "and_then (Inl e) f = Inl e"
  by (simp add: and_then_def)

lemma and_then_Inr [simp]: "and_then (Inr x) f = f x"
  by (simp add: and_then_def)

lemma and_then_eq_Inr:
  "and_then m f = Inr y \<longleftrightarrow> (\<exists>x. m = Inr x \<and> f x = Inr y)"
  by (cases m) simp_all

lemma iloc_first: "iloc df 0 = Inr r \<Longrightarrow> df \<noteq> [] \<and> r = hd df"
  by (cases df) (auto simp: iloc_def getitem_def split: if_splits)

lemma iloc_last: "iloc df (- 1) = Inr r \<Longrightarrow> df \<noteq> [] \<and> r = last df"
  by (cases df rule: rev_cases) (auto simp: iloc_def getitem_def nth_append split: if_splits)

lemma iloc_30: "iloc df (- 30) = Inr r \<Longrightarrow> 30 \<le> length df"
  by (auto simp: iloc_def getitem_def split: if_splits)

lemma iloc_total:
  "30 \<le> length df \<Longrightarrow>
   iloc df 0 = Inr (hd df) \<and> iloc df (- 1) = Inr (last df)
   \<and> iloc df (- 30) = Inr (df ! (length df - 30))"
  by (cases df rule: rev_cases)
     (auto simp: iloc_def getitem_def nth_append hd_conv_nth nat_diff_distrib' nat_add_distrib)

lemma try_block_success:
  assumes "try_block E c s e v = Inr (df, ar_yearly, ar_monthly, msd)"
  shows "single_company_specific E (c @ ''.NS'') s e = Inr df"
    and "30 \<le> length df"
    and "annualized_rate_of_return E (Close (last df)) (Close (hd df)) 1 = Inr ar_yearly"
  using assms
  by (auto simp: try_block_def and_then_eq_Inr dest!: iloc_first iloc_last iloc_30)


lemma strftime_sentinel: "strftime_dmy (Datetime 1000 1 1) = ''01-01-1000''"
  by (simp add: strftime_dmy_def digit_def)

lemma make_record_placeholder:
  "make_record c placeholder_frame None None None = Inr (unusable_record c)"
  by (simp add: make_record_def placeholder_frame_def iloc_def getitem_def unusable_record_def
      strftime_sentinel)

lemma make_record_long:
  assumes "30 \<le> length df"
  shows "\<exists>r. make_record c df ar_yearly ar_monthly ms = Inr r \<and> company r = c
           \<and> return_yearly r = ar_yearly \<and> return_monthly r = ar_monthly
           \<and> yearly_start_date_close r = Close (hd df) \<and> yearly_end_date_close r = Close (last df)"
  using iloc_total[OF assms] by (simp add: make_record_def)

lemma parallel_momentum_success:
  assumes "try_block E c s e v = Inr (df, ar_yearly, ar_monthly, msd)"
  shows "\<exists>r. parallel_momentum E c s e v = Inr r \<and> company r = c \<and> return_yearly r = ar_yearly"
  using make_record_long[OF try_block_success(2)[OF assms], of c ar_yearly ar_monthly "Some msd"] assms
  by (auto simp: parallel_momentum_def)

lemma parallel_momentum_caught:
  assumes "try_block E c s e v = Inl err" and "caught err"
  shows "parallel_momentum E c s e v = Inr (unusable_record c)"
  using assms by (simp add: parallel_momentum_def make_record_placeholder)

lemma parallel_momentum_uncaught:
  assumes "try_block E c s e v = Inl err" and "\<not> caught err"
  shows "parallel_momentum E c s e v = Inl err"
  using assms by (simp add: parallel_momentum_def)

lemma starmap_Inr:
  "starmap f xs = Inr ys \<longleftrightarrow> list_all2 (\<lambda>x y. f x = Inr y) xs ys"
proof (induction xs arbitrary: ys)
  case Nil
  then show ?case by auto
next
  case (Cons x xs)
  show ?case
    by (cases ys) (auto split: sum.splits simp: Cons.IH[symmetric])
qed

lemma starmap_total:
  assumes "\<forall>x\<in>set xs. \<exists>y. f x = Inr y"
  shows "\<exists>ys. starmap f xs = Inr ys"
  using assms
proof (induction xs)
  case Nil
  then show ?case by simp
next
  case (Cons x xs)
  then obtain y ys where "f x = Inr y" "starmap f xs = Inr ys" by auto
  then show ?case by simp
qed

lemma mset_sort_values: "mset (sort_values rows) = mset rows"
  by (simp add: sort_values_def)

lemma sorted_sort_values:
  "sorted_wrt (\<lambda>a b. return_yearly b \<le> return_yearly a) (sort_values rows)"
proof -
  have "sorted (map return_yearly (sort_key return_yearly (rev rows)))"
    by (rule sorted_sort_key)
  then have "sorted_wrt (\<lambda>a b. return_yearly a \<le> return_yearly b) (sort_key return_yearly (rev rows))"
    by (simp add: sorted_wrt_map)
  then show ?thesis
    by (simp add: sort_values_def sorted_wrt_rev)
qed

lemma head_nonneg: "0 \<le> n \<Longrightarrow> head rows n = take (nat n) rows"
  by (simp add: head_def)

lemma set_head: "set (head rows n) \<subseteq> set rows"
  by (auto simp: head_def dest: in_set_takeD)

lemma momentum_strategy_Inr:
  assumes "momentum_strategy E cs d n save v = Inr out"
  shows "\<exists>result. collect_results E cs d v = Inr result \<and> result \<noteq> []
           \<and> table out = head (sort_values (dropna result)) n
           \<and> out = (if save then Saved (table out) else Returned (table out))"
  using assms
  by (auto simp: momentum_strategy_def momentum_frame_def and_then_eq_Inr split: if_splits)

subsection \<open>The provider stub, evaluated\<close>

lemma january_first: "iloc (january_frame a b) 0 = Inr \<lparr>Date = Datetime 2020 1 1, Close = Some a\<rparr>"
  by (simp add: january_frame_def iloc_def getitem_def nth_append)

lemma january_30th_from_end: "iloc (january_frame a b) (- 30) = Inr \<lparr>Date = Datetime 2020 1 1, Close = Some a\<rparr>"
  by (simp add: january_frame_def iloc_def getitem_def nth_append)

lemma january_last: "iloc (january_frame a b) (- 1) = Inr \<lparr>Date = Datetime 2020 1 31, Close = Some b\<rparr>"
  by (simp add: january_frame_def iloc_def getitem_def nth_append)

lemma january_days: "days_between (Datetime 2020 1 31) (Datetime 2020 1 1) = 30"
  by (simp add: days_between_def toordinal_def days_before_year_def days_before_month_def)

lemma stub_try_block_rising:
  assumes "c @ ''.NS'' \<noteq> ''BAD.NS''" and "c @ ''.NS'' \<noteq> ''SHORT.NS''" and "c @ ''.NS'' \<noteq> ''HIGH.NS''"
  shows "try_block stub_env c s e v
           = Inr (january_frame 100 121, Some (21/100), Some (21/100), ''01-01-2020'')"
  using assms
  by (simp add: try_block_def stub_env_def stub_provider_def january_first january_last
      january_30th_from_end january_days spec_annualized_return_def spec_monthly_anchor_def
      strftime_dmy_def digit_def)

lemma stub_parallel_momentum_rising:
  assumes "c @ ''.NS'' \<noteq> ''BAD.NS''" and "c @ ''.NS'' \<noteq> ''SHORT.NS''" and "c @ ''.NS'' \<noteq> ''HIGH.NS''"
  shows "parallel_momentum stub_env c s e v = Inr (january_record c 121 (21/100))"
  by (simp add: parallel_momentum_def stub_try_block_rising[OF assms] make_record_def
      january_first january_last january_30th_from_end january_record_def strftime_dmy_def
      digit_def)

lemma stub_parallel_momentum_high:
  "parallel_momentum stub_env ''HIGH'' s e v = Inr (january_record ''HIGH'' 150 (1/2))"
  by (simp add: parallel_momentum_def try_block_def stub_env_def stub_provider_def
      january_first january_last january_30th_from_end january_days spec_annualized_return_def
      spec_monthly_anchor_def make_record_def january_record_def strftime_dmy_def digit_def)

lemma stub_try_block_short: "try_block stub_env ''SHORT'' s e v = Inl IndexError"
  by (simp add: try_block_def stub_env_def stub_provider_def iloc_def getitem_def
      spec_annualized_return_def spec_monthly_anchor_def)

lemma stub_try_block_bad: "try_block stub_env ''BAD'' s e v = Inl ConnectionError"
  by (simp add: try_block_def stub_env_def stub_provider_def)

lemma stub_collect_results:
  "collect_results stub_env cs ''today'' v
     = starmap (\<lambda>c. parallel_momentum stub_env c (Datetime 2019 1 31) (Datetime 2020 1 31) v) cs"
  by (simp add: collect_results_def stub_env_def minus_one_year_def Pool_def)

lemma has_na_january_record: "\<not> has_na (january_record c b r)"
  by (simp add: has_na_def january_record_def)

lemma has_na_unusable_record: "has_na (unusable_record c)"
  by (simp add: has_na_def unusable_record_def)

lemma make_record_company: "make_record c df ay am ms = Inr r \<Longrightarrow> company r = c"
  by (auto simp: make_record_def and_then_eq_Inr)

lemma parallel_momentum_company: "parallel_momentum E c s e v = Inr r \<Longrightarrow> company r = c"
  by (auto simp: parallel_momentum_def split: sum.splits if_splits dest: make_record_company)

section \<open>The claims about the momentum pipeline\<close>

text \<open>
  C4 (as amended). A failure of the \<open>try\<close> block with \<open>IndexError\<close>, \<open>KeyError\<close> or
  \<open>ValueError\<close> (or a subclass) is turned into the unusable record of that company; a
  failure with any other exception leaves \<open>_parallel_momentum\<close> as it is. When every
  failing company fails with a caught exception, the fan-out returns one record per
  company, in the order of the input, and each record is the one the company's own
  evaluation yields, whatever the other companies do.
\<close>

theorem caught_failures_are_contained:
  "(\<forall>err. try_block E c start end_d v = Inl err \<longrightarrow>
       parallel_momentum E c start end_d v
         = (if caught err then Inr (unusable_record c) else Inl err))
   \<and> ((\<forall>c\<in>set companies. \<forall>err. try_block E c start end_d v = Inl err \<longrightarrow> caught err) \<longrightarrow>
        (\<exists>result. starmap (\<lambda>c. parallel_momentum E c start end_d v) companies = Inr result
           \<and> list_all2 (\<lambda>c r. parallel_momentum E c start end_d v = Inr r \<and> company r = c)
                companies result))"
proof (intro conjI impI allI)
  fix err
  assume "try_block E c start end_d v = Inl err"
  then show "parallel_momentum E c start end_d v
         = (if caught err then Inr (unusable_record c) else Inl err)"
    by (simp add: parallel_momentum_caught parallel_momentum_uncaught)
next
  assume all: "\<forall>c\<in>set companies. \<forall>err. try_block E c start end_d v = Inl err \<longrightarrow> caught err"
  let ?f = "\<lambda>c. parallel_momentum E c start end_d v"
  have each: "\<exists>r. ?f c = Inr r" if "c \<in> set companies" for c
  proof (cases "try_block E c start end_d v")
    case (Inl err)
    then have "caught err" using all that by blast
    then show ?thesis
      using parallel_momentum_caught[OF Inl] by simp
  next
    case (Inr t)
    then show ?thesis
      using parallel_momentum_success[of E c start end_d v]
      by (cases t) auto
  qed
  then have "\<forall>c\<in>set companies. \<exists>r. ?f c = Inr r" by blast
  from starmap_total[OF this] obtain result where res: "starmap ?f companies = Inr result" by blast
  then have "list_all2 (\<lambda>c r. ?f c = Inr r) companies result"
    by (simp add: starmap_Inr)
  then have "list_all2 (\<lambda>c r. ?f c = Inr r \<and> company r = c) companies result"
    by (rule list_all2_mono) (auto dest: parallel_momentum_company)
  then show "\<exists>result. starmap ?f companies = Inr result
           \<and> list_all2 (\<lambda>c r. ?f c = Inr r \<and> company r = c) companies result"
    using res by blast
qed

theorem caught_failures_are_contained_witness:
  "try_block stub_env ''GOOD'' (Datetime 2019 1 31) (Datetime 2020 1 31) 1
     = Inr (january_frame 100 121, Some (21/100), Some (21/100), ''01-01-2020'')
   \<and> try_block stub_env ''SHORT'' (Datetime 2019 1 31) (Datetime 2020 1 31) 1 = Inl IndexError
   \<and> caught IndexError
   \<and> starmap (\<lambda>c. parallel_momentum stub_env c (Datetime 2019 1 31) (Datetime 2020 1 31) 1)
        [''GOOD'', ''SHORT'']
      = Inr [january_record ''GOOD'' 121 (21/100), unusable_record ''SHORT'']"
proof -
  have g: "try_block stub_env ''GOOD'' (Datetime 2019 1 31) (Datetime 2020 1 31) 1
     = Inr (january_frame 100 121, Some (21/100), Some (21/100), ''01-01-2020'')"
    by (rule stub_try_block_rising) simp_all
  have s: "try_block stub_env ''SHORT'' (Datetime 2019 1 31) (Datetime 2020 1 31) 1 = Inl IndexError"
    by (rule stub_try_block_short)
  have c: "caught IndexError" by (simp add: caught_def)
  have hyp: "\<forall>c\<in>set [''GOOD'', ''SHORT'']. \<forall>err.
      try_block stub_env c (Datetime 2019 1 31) (Datetime 2020 1 31) 1 = Inl err \<longrightarrow> caught err"
    using g s c by simp
  have pg: "parallel_momentum stub_env ''GOOD'' (Datetime 2019 1 31) (Datetime 2020 1 31) 1
      = Inr (january_record ''GOOD'' 121 (21/100))"
    by (rule stub_parallel_momentum_rising) simp_all
  note inst = caught_failures_are_contained[of stub_env "''SHORT''" "Datetime 2019 1 31"
      "Datetime 2020 1 31" 1 "[''GOOD'', ''SHORT'']"]
  from inst hyp obtain result where
    r: "starmap (\<lambda>c. parallel_momentum stub_env c (Datetime 2019 1 31) (Datetime 2020 1 31) 1)
          [''GOOD'', ''SHORT''] = Inr result"
    and all: "list_all2 (\<lambda>c r. parallel_momentum stub_env c (Datetime 2019 1 31) (Datetime 2020 1 31) 1 = Inr r
          \<and> company r = c) [''GOOD'', ''SHORT''] result"
    by blast
  from inst s c have ps: "parallel_momentum stub_env ''SHORT'' (Datetime 2019 1 31) (Datetime 2020 1 31) 1
      = Inr (unusable_record ''SHORT'')" by simp
  from all pg ps have "result = [january_record ''GOOD'' 121 (21/100), unusable_record ''SHORT'']"
    by (auto simp: list_all2_Cons1)
  with r g s c show ?thesis by simp
qed

text \<open>
  C4 (as stated) fails: the handler names three exception classes only. A provider that
  fails with a connection error for one ticker makes \<open>_parallel_momentum\<close> raise, and the
  run over three tickers ends with that error instead of a table.
\<close>

theorem uncaught_failure_counterexample:
  "try_block stub_env ''BAD'' (Datetime 2019 1 31) (Datetime 2020 1 31) 1 = Inl ConnectionError
   \<and> parallel_momentum stub_env ''BAD'' (Datetime 2019 1 31) (Datetime 2020 1 31) 1 = Inl ConnectionError
   \<and> momentum_strategy stub_env [''GOOD'', ''BAD'', ''HIGH''] ''today'' 20 False 1 = Inl ConnectionError"
proof -
  have nc: "\<not> caught ConnectionError" by (simp add: caught_def)
  have pb: "parallel_momentum stub_env ''BAD'' s e v = Inl ConnectionError" for s e v
    by (rule parallel_momentum_uncaught[OF stub_try_block_bad nc])
  have pg: "parallel_momentum stub_env ''GOOD'' s e v = Inr (january_record ''GOOD'' 121 (21/100))" for s e v
    by (rule stub_parallel_momentum_rising) simp_all
  show ?thesis
    by (simp add: stub_try_block_bad pb pg momentum_strategy_def stub_collect_results)
qed

text \<open>
  C5 (as amended). When the \<open>try\<close> block fails with a caught exception, the record of the
  company has every close and both returns missing, the three dates read from the
  placeholder frame equal to \<open>01-01-1000\<close>, and \<open>monthly_start_date\<close> missing as well. The
  frame \<open>momentum_strategy\<close> ranks holds exactly the rows without a missing value, and the
  table it hands over is the head of that frame, so no row of it has a missing value.
\<close>

theorem unusable_records_are_dropped:
  "(try_block E c start end_d v = Inl err \<and> caught err \<longrightarrow>
      (\<exists>r. parallel_momentum E c start end_d v = Inr r
         \<and> company r = c
         \<and> yearly_start_date_close r = None \<and> yearly_end_date_close r = None
         \<and> monthly_start_date_close r = None \<and> monthly_end_date_close r = None
         \<and> return_yearly r = None \<and> return_monthly r = None
         \<and> yearly_start_date r = ''01-01-1000'' \<and> yearly_end_date r = ''01-01-1000''
         \<and> monthly_end_date r = ''01-01-1000'' \<and> monthly_start_date r = None
         \<and> has_na r))
   \<and> (momentum_frame result = Inr df \<longrightarrow>
         mset df = filter_mset (\<lambda>r. \<not> has_na r) (mset result))
   \<and> (momentum_strategy E companies end_date n save v = Inr out \<longrightarrow>
         (\<exists>result ranked. collect_results E companies end_date v = Inr result
            \<and> momentum_frame result = Inr ranked
            \<and> table out = head ranked n
            \<and> list_all (\<lambda>r. \<not> has_na r) (table out)))"
proof (intro conjI impI)
  assume "try_block E c start end_d v = Inl err \<and> caught err"
  then have "parallel_momentum E c start end_d v = Inr (unusable_record c)"
    by (simp add: parallel_momentum_caught)
  then show "\<exists>r. parallel_momentum E c start end_d v = Inr r
         \<and> company r = c
         \<and> yearly_start_date_close r = None \<and> yearly_end_date_close r = None
         \<and> monthly_start_date_close r = None \<and> monthly_end_date_close r = None
         \<and> return_yearly r = None \<and> return_monthly r = None
         \<and> yearly_start_date r = ''01-01-1000'' \<and> yearly_end_date r = ''01-01-1000''
         \<and> monthly_end_date r = ''01-01-1000'' \<and> monthly_start_date r = None
         \<and> has_na r"
    by (simp add: unusable_record_def has_na_def)
next
  assume "momentum_frame result = Inr df"
  then have "df = sort_values (dropna result)"
    by (auto simp: momentum_frame_def split: if_splits)
  then show "mset df = filter_mset (\<lambda>r. \<not> has_na r) (mset result)"
    by (simp add: mset_sort_values dropna_def)
next
  assume "momentum_strategy E companies end_date n save v = Inr out"
  from momentum_strategy_Inr[OF this] obtain result where
    c: "collect_results E companies end_date v = Inr result" and ne: "result \<noteq> []"
    and t: "table out = head (sort_values (dropna result)) n"
    by blast
  have f: "momentum_frame result = Inr (sort_values (dropna result))"
    using ne by (simp add: momentum_frame_def)
  have "set (table out) \<subseteq> set (sort_values (dropna result))"
    unfolding t by (rule set_head)
  also have "\<dots> = set (dropna result)"
    using mset_sort_values[of "dropna result"] by (metis set_mset_mset)
  finally have "list_all (\<lambda>r. \<not> has_na r) (table out)"
    by (auto simp: dropna_def list_all_iff)
  then show "\<exists>result ranked. collect_results E companies end_date v = Inr result
            \<and> momentum_frame result = Inr ranked
            \<and> table out = head ranked n
            \<and> list_all (\<lambda>r. \<not> has_na r) (table out)"
    using c f t by blast
qed

lemma stub_results_good_short:
  "collect_results stub_env [''GOOD'', ''SHORT''] ''today'' 1
     = Inr [january_record ''GOOD'' 121 (21/100), unusable_record ''SHORT'']"
  by (simp add: stub_collect_results stub_parallel_momentum_rising
      parallel_momentum_caught[OF stub_try_block_short] caught_def)

lemma stub_frame_good_short:
  "momentum_frame [january_record ''GOOD'' 121 (21/100), unusable_record ''SHORT'']
     = Inr [january_record ''GOOD'' 121 (21/100)]"
  by (simp add: momentum_frame_def dropna_def sort_values_def has_na_january_record
      has_na_unusable_record)

theorem unusable_records_are_dropped_witness:
  "try_block stub_env ''SHORT'' (Datetime 2019 1 31) (Datetime 2020 1 31) 1 = Inl IndexError
   \<and> caught IndexError
   \<and> parallel_momentum stub_env ''SHORT'' (Datetime 2019 1 31) (Datetime 2020 1 31) 1
       = Inr (unusable_record ''SHORT'')
   \<and> momentum_frame [january_record ''GOOD'' 121 (21/100), unusable_record ''SHORT'']
       = Inr [january_record ''GOOD'' 121 (21/100)]
   \<and> momentum_strategy stub_env [''GOOD'', ''SHORT''] ''today'' 20 False 1
       = Inr (Returned [january_record ''GOOD'' 121 (21/100)])"
proof -
  have s: "try_block stub_env ''SHORT'' (Datetime 2019 1 31) (Datetime 2020 1 31) 1 = Inl IndexError"
    by (rule stub_try_block_short)
  have c: "caught IndexError" by (simp add: caught_def)
  have m: "momentum_strategy stub_env [''GOOD'', ''SHORT''] ''today'' 20 False 1
       = Inr (Returned [january_record ''GOOD'' 121 (21/100)])"
    by (simp add: momentum_strategy_def stub_results_good_short stub_frame_good_short head_def)
  note inst = unusable_records_are_dropped[of stub_env "''SHORT''" "Datetime 2019 1 31"
      "Datetime 2020 1 31" 1 IndexError
      "[january_record ''GOOD'' 121 (21/100), unusable_record ''SHORT'']"
      "[january_record ''GOOD'' 121 (21/100)]"
      "[''GOOD'', ''SHORT'']" "''today''" 20 False "Returned [january_record ''GOOD'' 121 (21/100)]"]
  from inst s c obtain r where
    "parallel_momentum stub_env ''SHORT'' (Datetime 2019 1 31) (Datetime 2020 1 31) 1 = Inr r" by blast
  moreover have "parallel_momentum stub_env ''SHORT'' (Datetime 2019 1 31) (Datetime 2020 1 31) 1
       = Inr (unusable_record ''SHORT'')"
    by (rule parallel_momentum_caught[OF s c])
  ultimately show ?thesis using s c m stub_frame_good_short by simp
qed

text \<open>
  C5 (as stated) fails on the dates: the handler sets \<open>monthly_start_date\<close> to \<open>pd.NA\<close>,
  so not all dates of an unusable record are the sentinel \<open>01-01-1000\<close>.
\<close>

theorem unusable_record_dates_counterexample:
  "try_block stub_env ''SHORT'' (Datetime 2019 1 31) (Datetime 2020 1 31) 1 = Inl IndexError
   \<and> parallel_momentum stub_env ''SHORT'' (Datetime 2019 1 31) (Datetime 2020 1 31) 1
       = Inr (unusable_record ''SHORT'')
   \<and> monthly_start_date (unusable_record ''SHORT'') = None
   \<and> monthly_start_date (unusable_record ''SHORT'') \<noteq> Some ''01-01-1000''"
  by (simp add: stub_try_block_short parallel_momentum_caught[OF stub_try_block_short] caught_def
      unusable_record_def)

text \<open>
  C6 (as amended). Whenever \<open>momentum_strategy\<close> hands over a table, that table is the
  head of the ranked frame: the rows without a missing value, ordered by \<open>return_yearly\<close>
  descending (on present values the order of \<open>real option\<close> is the order of the reals),
  with \<open>return_yearly\<close> as the only key and no regard to the company name. For a count
  \<open>n \<ge> 0\<close> the head is the first \<open>n\<close> rows, all of them when there are fewer; the count is
  20 when the caller gives none.
\<close>

theorem ranking_is_by_yearly_return_only:
  assumes "momentum_strategy E companies end_date n save v = Inr out"
  shows "\<exists>result ranked. collect_results E companies end_date v = Inr result
           \<and> momentum_frame result = Inr ranked
           \<and> mset ranked = mset (dropna result)
           \<and> sorted_wrt (\<lambda>a b. return_yearly b \<le> return_yearly a) ranked
           \<and> table out = head ranked n
           \<and> (0 \<le> n \<longrightarrow> table out = take (nat n) ranked
                          \<and> length (table out) = min (nat n) (length ranked))
           \<and> momentum_strategy_default E companies
                = momentum_strategy E companies ''today'' 20 True 1"
proof -
  from momentum_strategy_Inr[OF assms] obtain result where
    c: "collect_results E companies end_date v = Inr result" and ne: "result \<noteq> []"
    and t: "table out = head (sort_values (dropna result)) n"
    by blast
  let ?ranked = "sort_values (dropna result)"
  have "momentum_frame result = Inr ?ranked"
    using ne by (simp add: momentum_frame_def)
  moreover have "mset ?ranked = mset (dropna result)"
    by (rule mset_sort_values)
  moreover have "sorted_wrt (\<lambda>a b. return_yearly b \<le> return_yearly a) ?ranked"
    by (rule sorted_sort_values)
  moreover have "0 \<le> n \<longrightarrow> table out = take (nat n) ?ranked
                          \<and> length (table out) = min (nat n) (length ?ranked)"
    unfolding t by (simp add: head_nonneg min.commute)
  moreover have "momentum_strategy_default E companies
                = momentum_strategy E companies ''today'' 20 True 1"
    by (simp add: momentum_strategy_default_def)
  ultimately show ?thesis using c t by blast
qed

lemma return_yearly_january_record: "return_yearly (january_record c b r) = Some r"
  by (simp add: january_record_def)

lemma company_january_record: "company (january_record c b r) = c"
  by (simp add: january_record_def)

lemma stub_results_three:
  "collect_results stub_env [''GOOD'', ''HIGH'', ''SHORT''] ''today'' 1
     = Inr [january_record ''GOOD'' 121 (21/100), january_record ''HIGH'' 150 (1/2),
            unusable_record ''SHORT'']"
  by (simp add: stub_collect_results stub_parallel_momentum_rising stub_parallel_momentum_high
      parallel_momentum_caught[OF stub_try_block_short] caught_def)

theorem ranking_is_by_yearly_return_only_witness:
  "momentum_strategy stub_env [''GOOD'', ''HIGH'', ''SHORT''] ''today'' 1 False 1
     = Inr (Returned [january_record ''HIGH'' 150 (1/2)])
   \<and> collect_results stub_env [''GOOD'', ''HIGH'', ''SHORT''] ''today'' 1
     = Inr [january_record ''GOOD'' 121 (21/100), january_record ''HIGH'' 150 (1/2),
            unusable_record ''SHORT'']
   \<and> momentum_frame [january_record ''GOOD'' 121 (21/100), january_record ''HIGH'' 150 (1/2),
            unusable_record ''SHORT'']
     = Inr [january_record ''HIGH'' 150 (1/2), january_record ''GOOD'' 121 (21/100)]"
proof -
  have f: "momentum_frame [january_record ''GOOD'' 121 (21/100), january_record ''HIGH'' 150 (1/2),
            unusable_record ''SHORT'']
     = Inr [january_record ''HIGH'' 150 (1/2), january_record ''GOOD'' 121 (21/100)]"
    by (simp add: momentum_frame_def dropna_def sort_values_def has_na_january_record
        has_na_unusable_record return_yearly_january_record)
  have m: "momentum_strategy stub_env [''GOOD'', ''HIGH'', ''SHORT''] ''today'' 1 False 1
     = Inr (Returned [january_record ''HIGH'' 150 (1/2)])"
    by (simp add: momentum_strategy_def stub_results_three f head_def)
  from ranking_is_by_yearly_return_only[OF m] obtain result ranked where
    "collect_results stub_env [''GOOD'', ''HIGH'', ''SHORT''] ''today'' 1 = Inr result"
    "momentum_frame result = Inr ranked"
    "table (Returned [january_record ''HIGH'' 150 (1/2)]) = head ranked 1"
    by blast
  then show ?thesis using m f stub_results_three by simp
qed

text \<open>
  C6 (as stated) fails on ties: the sort has \<open>return_yearly\<close> as its only key. Two tickers
  with the same return, given as \<open>B\<close> then \<open>A\<close>, come out as \<open>B\<close> then \<open>A\<close>.
\<close>

theorem tie_break_counterexample:
  "momentum_strategy stub_env [''B'', ''A''] ''today'' 20 False 1
     = Inr (Returned [january_record ''B'' 121 (21/100), january_record ''A'' 121 (21/100)])
   \<and> return_yearly (january_record ''B'' 121 (21/100)) = return_yearly (january_record ''A'' 121 (21/100))
   \<and> map company [january_record ''B'' 121 (21/100), january_record ''A'' 121 (21/100)] = [''B'', ''A'']"
proof -
  have r: "collect_results stub_env [''B'', ''A''] ''today'' 1
     = Inr [january_record ''B'' 121 (21/100), january_record ''A'' 121 (21/100)]"
    by (simp add: stub_collect_results stub_parallel_momentum_rising)
  have f: "momentum_frame [january_record ''B'' 121 (21/100), january_record ''A'' 121 (21/100)]
     = Inr [january_record ''B'' 121 (21/100), january_record ''A'' 121 (21/100)]"
    by (simp add: momentum_frame_def dropna_def sort_values_def has_na_january_record
        return_yearly_january_record)
  show ?thesis
    by (simp add: momentum_strategy_def r f head_def return_yearly_january_record
        company_january_record)
qed

text \<open>
  C7 (as amended). When the \<open>try\<close> block of a company runs to its end, the series was
  fetched and is not empty, and \<open>return_yearly\<close> of the record is what
  \<open>annualized_rate_of_return\<close> gives for \<open>end_date\<close> the last close, \<open>start_date\<close> the first
  close and \<open>duration\<close> 1.
\<close>

theorem yearly_return_of_a_completed_evaluation:
  assumes "try_block E c start end_d v = Inr (df, ar_yearly, ar_monthly, msd)"
  shows "single_company_specific E (c @ ''.NS'') start end_d = Inr df \<and> df \<noteq> []
         \<and> (\<exists>r. parallel_momentum E c start end_d v = Inr r
                \<and> annualized_rate_of_return E (Close (last df)) (Close (hd df)) 1
                    = Inr (return_yearly r))"
proof -
  note s = try_block_success[OF assms]
  from parallel_momentum_success[OF assms] obtain r where
    "parallel_momentum E c start end_d v = Inr r" "return_yearly r = ar_yearly" by blast
  then show ?thesis using s by auto
qed

theorem yearly_return_of_a_completed_evaluation_witness:
  "try_block stub_env ''GOOD'' (Datetime 2019 1 31) (Datetime 2020 1 31) 1
     = Inr (january_frame 100 121, Some (21/100), Some (21/100), ''01-01-2020'')
   \<and> parallel_momentum stub_env ''GOOD'' (Datetime 2019 1 31) (Datetime 2020 1 31) 1
       = Inr (january_record ''GOOD'' 121 (21/100))
   \<and> annualized_rate_of_return stub_env (Close (last (january_frame 100 121)))
        (Close (hd (january_frame 100 121))) 1
       = Inr (return_yearly (january_record ''GOOD'' 121 (21/100)))"
proof -
  have t: "try_block stub_env ''GOOD'' (Datetime 2019 1 31) (Datetime 2020 1 31) 1
     = Inr (january_frame 100 121, Some (21/100), Some (21/100), ''01-01-2020'')"
    by (rule stub_try_block_rising) simp_all
  have p: "parallel_momentum stub_env ''GOOD'' (Datetime 2019 1 31) (Datetime 2020 1 31) 1
       = Inr (january_record ''GOOD'' 121 (21/100))"
    by (rule stub_parallel_momentum_rising) simp_all
  from yearly_return_of_a_completed_evaluation[OF t] p t show ?thesis by auto
qed

text \<open>
  C7 (as stated) fails for a series that is fetched but too short: with a single row at
  100 the annualized return of first to last close over one year is 0, yet the lookup of
  the 30th row from the end raises \<open>IndexError\<close> and the handler resets \<open>return_yearly\<close> to
  a missing value.
\<close>

theorem short_series_yearly_return_counterexample:
  "single_company_specific stub_env ''SHORT.NS'' (Datetime 2019 1 31) (Datetime 2020 1 31)
     = Inr [\<lparr>Date = Datetime 2020 1 31, Close = Some 100\<rparr>]
   \<and> annualized_rate_of_return stub_env (Some 100) (Some 100) 1 = Inr (Some 0)
   \<and> parallel_momentum stub_env ''SHORT'' (Datetime 2019 1 31) (Datetime 2020 1 31) 1
       = Inr (unusable_record ''SHORT'')
   \<and> return_yearly (unusable_record ''SHORT'') = None"
  by (simp add: parallel_momentum_caught[OF stub_try_block_short] caught_def)
     (simp add: stub_env_def stub_provider_def spec_annualized_return_def unusable_record_def)

section \<open>The claims about the combined strategy\<close>

lemma Indicator_rejects_company_name: "Indicator_call E [''company_name''] = Inl TypeError"
  by (simp add: Indicator_call_def bind_keywords_def Indicator_init_params_def)

lemma ema_indicator_rejects_keywords:
  "ema_indicator_call E [''ema_canditate'', ''cutoff_date'', ''save'', ''verbosity''] = Inl TypeError"
  by (simp add: ema_indicator_call_def bind_keywords_def ema_indicator_params_def)

lemma momentum_with_ema_after_momentum:
  "momentum_with_ema_strategy E cs d n save v =
     (case momentum_strategy E cs d n False v of Inl err \<Rightarrow> Inl err | Inr out \<Rightarrow> Inl TypeError)"
  by (auto simp: momentum_with_ema_strategy_def Indicator_rejects_company_name
      dest!: momentum_strategy_Inr split: sum.splits outcome.splits)

lemma stub_single_core:
  "momentum_strategy (stub_env\<lparr>cpu_count := 1\<rparr>) cs ''today'' n save v = Inl ValueError"
  by (simp add: momentum_strategy_def collect_results_def stub_env_def minus_one_year_def Pool_def)

text \<open>
  C8. The pool is created with \<open>cpu_count() - 1\<close> processes and no lower bound. On a
  machine with one logical core that is a pool of size 0, which \<open>Pool\<close> refuses with
  \<open>ValueError\<close>, so \<open>momentum_strategy\<close> fails before any company is evaluated.
\<close>

theorem single_core_pool_is_refused:
  "cpu_count (stub_env\<lparr>cpu_count := 1\<rparr>) - 1 = 0
   \<and> Pool (cpu_count (stub_env\<lparr>cpu_count := 1\<rparr>) - 1) = Inl ValueError
   \<and> momentum_strategy (stub_env\<lparr>cpu_count := 1\<rparr>) [''GOOD''] ''today'' 20 False 1 = Inl ValueError"
  by (simp add: stub_single_core) (simp add: Pool_def stub_env_def)

lemma stub_duplicate_table:
  "momentum_strategy stub_env [''GOOD'', ''GOOD''] ''today'' 20 False 1
     = Inr (Returned [january_record ''GOOD'' 121 (21/100), january_record ''GOOD'' 121 (21/100)])"
  by (simp add: momentum_strategy_def stub_collect_results stub_parallel_momentum_rising
      momentum_frame_def dropna_def sort_values_def has_na_january_record head_def)

text \<open>
  C9. With the same ticker listed twice the momentum table holds the company twice, and
  a 1:1 merge of that table would be refused with \<open>MergeError\<close>. The strategy never gets
  that far: it ends with the \<open>TypeError\<close> of \<open>Indicator(company_name=...)\<close>.
\<close>

theorem duplicate_ticker_ends_in_type_error:
  "momentum_strategy stub_env [''GOOD'', ''GOOD''] ''today'' 20 False 1
     = Inr (Returned [january_record ''GOOD'' 121 (21/100), january_record ''GOOD'' 121 (21/100)])
   \<and> momentum_with_ema_strategy stub_env [''GOOD'', ''GOOD''] ''today'' 20 False 1 = Inl TypeError
   \<and> merge_on_company [january_record ''GOOD'' 121 (21/100), january_record ''GOOD'' 121 (21/100)]
        (Some []) = Inl MergeError"
  by (simp add: stub_duplicate_table momentum_with_ema_after_momentum merge_on_company_def
      company_january_record)

text \<open>
  C10 (as amended). \<open>momentum_with_ema_strategy\<close> never hands over a merged table. An
  error of \<open>momentum_strategy\<close> leaves unchanged; whenever \<open>momentum_strategy\<close> returns, the
  call \<open>Indicator(company_name=...)\<close> raises \<open>TypeError\<close>, since \<open>__init__\<close> takes \<open>path\<close>
  only. The call of \<open>ema_indicator\<close> with \<open>ema_canditate\<close>, \<open>cutoff_date\<close> and \<open>save\<close> is a
  \<open>TypeError\<close> as well, and a call of \<open>ema_indicator\<close> that returns yields \<open>None\<close>.
\<close>

theorem momentum_with_ema_never_merges:
  "(\<exists>err. momentum_with_ema_strategy E companies end_date n save v = Inl err)
   \<and> (\<forall>err. momentum_strategy E companies end_date n False v = Inl err
          \<longrightarrow> momentum_with_ema_strategy E companies end_date n save v = Inl err)
   \<and> (\<forall>out. momentum_strategy E companies end_date n False v = Inr out
          \<longrightarrow> momentum_with_ema_strategy E companies end_date n save v = Inl TypeError)
   \<and> Indicator_call E [''company_name''] = Inl TypeError
   \<and> ema_indicator_call E [''ema_canditate'', ''cutoff_date'', ''save'', ''verbosity'']
       = Inl TypeError
   \<and> (\<forall>keywords t. ema_indicator_call E keywords = Inr t \<longrightarrow> t = None)"
proof -
  have "\<forall>keywords t. ema_indicator_call E keywords = Inr t \<longrightarrow> t = None"
    by (auto simp: ema_indicator_call_def and_then_eq_Inr)
  then show ?thesis
    by (auto simp: momentum_with_ema_after_momentum Indicator_rejects_company_name
        ema_indicator_rejects_keywords split: sum.splits)
qed

theorem momentum_with_ema_never_merges_witness:
  "momentum_strategy stub_env [''GOOD'', ''HIGH''] ''today'' 20 False 1
     = Inr (Returned [january_record ''HIGH'' 150 (1/2), january_record ''GOOD'' 121 (21/100)])
   \<and> momentum_with_ema_strategy stub_env [''GOOD'', ''HIGH''] ''today'' 20 True 1 = Inl TypeError"
proof -
  have m: "momentum_strategy stub_env [''GOOD'', ''HIGH''] ''today'' 20 False 1
     = Inr (Returned [january_record ''HIGH'' 150 (1/2), january_record ''GOOD'' 121 (21/100)])"
    by (simp add: momentum_strategy_def stub_collect_results stub_parallel_momentum_rising
      stub_parallel_momentum_high momentum_frame_def dropna_def sort_values_def
      has_na_january_record head_def return_yearly_january_record)
  from momentum_with_ema_never_merges[of stub_env "[''GOOD'', ''HIGH'']" "''today''" 20 True 1] m
  show ?thesis by simp
qed

text \<open>
  C10 (as stated) fails where the momentum stage itself raises: on one logical core the
  error that leaves \<open>momentum_with_ema_strategy\<close> is the \<open>ValueError\<close> of the pool, not a
  \<open>TypeError\<close>.
\<close>

theorem momentum_with_ema_value_error_counterexample:
  "momentum_with_ema_strategy (stub_env\<lparr>cpu_count := 1\<rparr>) [''GOOD''] ''today'' 20 False 1
     = Inl ValueError"
  by (simp add: momentum_with_ema_after_momentum stub_single_core)

end
